theory Spec2Isabelle
  imports Complex_Main
begin

section \<open>Python values\<close>

text \<open>
  The notebook \<^verbatim>\<open>docs/notebooks/05_Enhanced_Model.ipynb\<close> is Python on top of PyTorch.
  Its own arithmetic can raise two exceptions: \<^verbatim>\<open>ZeroDivisionError\<close>, and \<^verbatim>\<open>OverflowError\<close>
  when an int that is too large is converted to a float.
\<close>

datatype py_error = ZeroDivisionError | OverflowError

text \<open>
  A Python float is a finite number, an infinity or NaN. Finite floats are idealised as
  reals: rounding inside the range is not modelled, but a result whose magnitude reaches
  \<open>float_limit\<close> (the least magnitude that rounds to infinity in double precision)
  becomes an infinity, as float addition and multiplication do without raising. The order
  follows IEEE: every comparison with NaN is false.
\<close>

datatype pyfloat = Fin real | PInf | NInf | NaN

definition float_limit :: real where
  "float_limit = 2 ^ 1024 - 2 ^ 970"

definition flt_round :: "real \<Rightarrow> pyfloat" where
  "flt_round x = (if float_limit \<le> x then PInf else if x \<le> - float_limit then NInf else Fin x)"

text \<open>
  The conversion of an int operand in \<^verbatim>\<open>float * int\<close> and \<^verbatim>\<open>float / int\<close>: it raises where
  the int does not round to a finite double.
\<close>

definition fits_float :: "int \<Rightarrow> bool" where
  "fits_float n = (\<bar>real_of_int n\<bar> < float_limit)"

definition float_of_int :: "int \<Rightarrow> py_error + pyfloat" where
  "float_of_int n = (if fits_float n then Inr (Fin (real_of_int n)) else Inl OverflowError)"

fun flt_less :: "pyfloat \<Rightarrow> pyfloat \<Rightarrow> bool" where
  "flt_less (Fin a) (Fin b) = (a < b)"
| "flt_less (Fin a) PInf = True"
| "flt_less NInf (Fin b) = True"
| "flt_less NInf PInf = True"
| "flt_less _ _ = False"

fun flt_add :: "pyfloat \<Rightarrow> pyfloat \<Rightarrow> pyfloat" where
  "flt_add (Fin a) (Fin b) = flt_round (a + b)"
| "flt_add NaN _ = NaN"
| "flt_add _ NaN = NaN"
| "flt_add PInf NInf = NaN"
| "flt_add NInf PInf = NaN"
| "flt_add PInf _ = PInf"
| "flt_add _ PInf = PInf"
| "flt_add NInf _ = NInf"
| "flt_add _ NInf = NInf"

fun flt_neg :: "pyfloat \<Rightarrow> pyfloat" where
  "flt_neg (Fin a) = Fin (- a)"
| "flt_neg PInf = NInf"
| "flt_neg NInf = PInf"
| "flt_neg NaN = NaN"

definition flt_sub :: "pyfloat \<Rightarrow> pyfloat \<Rightarrow> pyfloat" where
  "flt_sub x y = flt_add x (flt_neg y)"

text \<open>An infinity with the sign of a non-zero real, NaN for zero.\<close>

definition signed_inf :: "real \<Rightarrow> pyfloat" where
  "signed_inf a = (if a = 0 then NaN else if 0 < a then PInf else NInf)"

fun flt_mul :: "pyfloat \<Rightarrow> pyfloat \<Rightarrow> pyfloat" where
  "flt_mul (Fin a) (Fin b) = flt_round (a * b)"
| "flt_mul NaN _ = NaN"
| "flt_mul _ NaN = NaN"
| "flt_mul (Fin a) PInf = signed_inf a"
| "flt_mul (Fin a) NInf = signed_inf (- a)"
| "flt_mul PInf (Fin b) = signed_inf b"
| "flt_mul NInf (Fin b) = signed_inf (- b)"
| "flt_mul PInf PInf = PInf"
| "flt_mul PInf NInf = NInf"
| "flt_mul NInf PInf = NInf"
| "flt_mul NInf NInf = PInf"

text \<open>\<^verbatim>\<open>np.cos\<close>: NaN (with a warning) at an infinity.\<close>

fun flt_cos :: "pyfloat \<Rightarrow> pyfloat" where
  "flt_cos (Fin a) = Fin (cos a)"
| "flt_cos _ = NaN"

text \<open>
  The quotient of a float by a divisor that is a non-zero integer value, so of magnitude
  at least 1: the result cannot leave the range.
\<close>

fun flt_quot :: "pyfloat \<Rightarrow> real \<Rightarrow> pyfloat" where
  "flt_quot (Fin a) d = Fin (a / d)"
| "flt_quot PInf d = (if 0 < d then PInf else NInf)"
| "flt_quot NInf d = (if 0 < d then NInf else PInf)"
| "flt_quot NaN d = NaN"

text \<open>
  \<^verbatim>\<open>x / n\<close> for a Python float \<open>x\<close> and an int \<open>n\<close>: the int is converted first, then a
  zero divisor raises.
\<close>

definition flt_div_int :: "pyfloat \<Rightarrow> int \<Rightarrow> py_error + pyfloat" where
  "flt_div_int x n =
     (if \<not> fits_float n then Inl OverflowError
      else if n = 0 then Inl ZeroDivisionError
      else Inr (flt_quot x (real_of_int n)))"

text \<open>
  \<^verbatim>\<open>x / n\<close> for a float \<open>x\<close> and \<open>n = len(loader)\<close>: Python raises on \<open>n = 0\<close>. A length
  is at most \<^verbatim>\<open>sys.maxsize\<close>, so its conversion cannot overflow; the same holds for the
  sample counts below.
\<close>

definition flt_div_len :: "pyfloat \<Rightarrow> nat \<Rightarrow> py_error + pyfloat" where
  "flt_div_len x n =
     (if n = 0 then Inl ZeroDivisionError
      else Inr (case x of Fin a \<Rightarrow> Fin (a / real n) | PInf \<Rightarrow> PInf | NInf \<Rightarrow> NInf | NaN \<Rightarrow> NaN))"

text \<open>\<^verbatim>\<open>100. * correct / total\<close> for two Python ints that count samples.\<close>

definition percentage :: "nat \<Rightarrow> nat \<Rightarrow> py_error + pyfloat" where
  "percentage n_correct n_total =
     (if n_total = 0 then Inl ZeroDivisionError
      else Inr (Fin (100 * real n_correct / real n_total)))"

section \<open>CosineAnnealingWarmRestarts\<close>

text \<open>
  The scheduler object: the three fields \<^verbatim>\<open>__init__\<close> sets, \<open>T_cur\<close>, and the two
  fields of the base class \<^verbatim>\<open>_LRScheduler\<close> that the methods read (\<open>last_epoch\<close>,
  \<open>base_lrs\<close>). The learning rates of the optimizer's parameter groups
  (\<^verbatim>\<open>param_group['lr']\<close>) are a list of floats, one per group.
\<close>

record scheduler =
  T_0 :: int
  T_mult :: int
  eta_min :: pyfloat
  T_cur :: int
  last_epoch :: int
  base_lrs :: "pyfloat list"

text \<open>The assignments of \<^verbatim>\<open>__init__\<close> before the call of the base constructor.\<close>

definition init_fields :: "int \<Rightarrow> int \<Rightarrow> pyfloat \<Rightarrow> int \<Rightarrow> pyfloat list \<Rightarrow> scheduler" where
  "init_fields t0 tmult emin last0 bl =
     \<lparr>T_0 = t0, T_mult = tmult, eta_min = emin, T_cur = last0, last_epoch = last0, base_lrs = bl\<rparr>"

text \<open>
  \<^verbatim>\<open>np.pi * self.T_cur / self.T_0\<close>: the product converts \<open>T_cur\<close>, the quotient converts
  \<open>T_0\<close> and then divides.
\<close>

definition cosine_arg :: "scheduler \<Rightarrow> py_error + pyfloat" where
  "cosine_arg s =
     (case float_of_int (T_cur s) of
        Inl err \<Rightarrow> Inl err
      | Inr t \<Rightarrow> flt_div_int (flt_mul (Fin pi) t) (T_0 s))"

text \<open>
  \<^verbatim>\<open>self.eta_min + (base_lr - self.eta_min) * (1 + np.cos(x)) / 2\<close> for the value \<open>x\<close> of
  the argument above.
\<close>

definition annealed :: "scheduler \<Rightarrow> pyfloat \<Rightarrow> pyfloat \<Rightarrow> pyfloat" where
  "annealed s x base_lr =
     flt_add (eta_min s)
       (flt_quot (flt_mul (flt_sub base_lr (eta_min s)) (flt_add (Fin 1) (flt_cos x))) 2)"

text \<open>
  \<^verbatim>\<open>get_lr\<close>: the list comprehension evaluates the expression once per base rate, so it
  raises (at the first base rate) where the argument of the cosine does, and cannot raise
  when there is no base rate.
\<close>

definition get_lr :: "scheduler \<Rightarrow> py_error + pyfloat list" where
  "get_lr s =
     (if base_lrs s = [] then Inr []
      else case cosine_arg s of
             Inl err \<Rightarrow> Inl err
           | Inr x \<Rightarrow> Inr (map (annealed s x) (base_lrs s)))"

text \<open>
  \<^verbatim>\<open>for param_group, lr in zip(param_groups, get_lr()): param_group['lr'] = lr\<close>:
  \<open>zip\<close> stops at the shorter list, the groups beyond it keep their rate.
\<close>

definition assign_lrs :: "pyfloat list \<Rightarrow> pyfloat list \<Rightarrow> pyfloat list" where
  "assign_lrs groups lrs = take (length groups) lrs @ drop (length lrs) groups"

text \<open>The counter update of \<^verbatim>\<open>step\<close>, which happens before \<^verbatim>\<open>get_lr\<close> can raise.\<close>

definition step_counters :: "int option \<Rightarrow> scheduler \<Rightarrow> scheduler" where
  "step_counters epoch s =
     (let e = (case epoch of None \<Rightarrow> last_epoch s + 1 | Some e \<Rightarrow> e);
          s1 = s\<lparr>last_epoch := e\<rparr>
      in if T_cur s1 + 1 = T_0 s1
         then s1\<lparr>T_cur := 0, T_0 := T_0 s1 * T_mult s1\<rparr>
         else s1\<lparr>T_cur := T_cur s1 + 1\<rparr>)"

text \<open>
  \<^verbatim>\<open>step\<close>. The result is the scheduler and the rates of the groups after the call,
  and the exception if the call raised: the counters are updated in either case, the
  rates only if \<^verbatim>\<open>get_lr\<close> returned.
\<close>

definition step ::
  "int option \<Rightarrow> scheduler \<times> pyfloat list \<Rightarrow> (scheduler \<times> pyfloat list) \<times> py_error option" where
  "step epoch sg =
     (let s' = step_counters epoch (fst sg)
      in case get_lr s' of
           Inl err \<Rightarrow> ((s', snd sg), Some err)
         | Inr lrs \<Rightarrow> ((s', assign_lrs (snd sg) lrs), None))"

text \<open>
  A sequence of calls of \<^verbatim>\<open>step\<close>, one per element of the list of arguments, by a caller
  that goes on after a call that raised.
\<close>

fun steps :: "int option list \<Rightarrow> scheduler \<times> pyfloat list \<Rightarrow> scheduler \<times> pyfloat list" where
  "steps [] sg = sg"
| "steps (e # es) sg = steps es (fst (step e sg))"

text \<open>
  The constructor. After the field assignments it calls the constructor of
  \<^verbatim>\<open>torch.optim.lr_scheduler._LRScheduler\<close>, which records the optimizer's rates as
  \<open>base_lrs\<close>, sets \<open>last_epoch\<close> and performs one initial call of \<^verbatim>\<open>self.step()\<close>. If
  that call raises, so does the constructor.
\<close>

definition CosineAnnealingWarmRestarts ::
  "pyfloat list \<Rightarrow> int \<Rightarrow> int \<Rightarrow> pyfloat \<Rightarrow> int \<Rightarrow> py_error + scheduler \<times> pyfloat list" where
  "CosineAnnealingWarmRestarts groups t0 tmult emin last0 =
     (case step None (init_fields t0 tmult emin last0 groups, groups) of
        (sg, None) \<Rightarrow> Inr sg
      | (sg, Some err) \<Rightarrow> Inl err)"

section \<open>The objects of the framework\<close>

text \<open>
  Tensor storage is shared between objects, so parameter values live in a store indexed by
  references. A model object is the reference of the storage of its parameters.

  The world is everything a call of the framework can mutate: the store, the model's
  \<^verbatim>\<open>training\<close> flag (set by \<^verbatim>\<open>model.train()\<close> and \<^verbatim>\<open>model.eval()\<close>), the internal state
  of the optimizer (Adam's moments and step count) and the learning rates of its parameter
  groups.
\<close>

type_synonym ref = nat

record ('p, 'o) world =
  store :: "ref \<Rightarrow> 'p"
  training :: bool
  opt_state :: 'o
  param_lrs :: "pyfloat list"

text \<open>
  What the code calls and does not define, taken as parameters: a batch of a loader has
  type \<open>'b\<close>, parameter values have type \<open>'p\<close>, optimizer states \<open>'o\<close>.
  \<^item> \<open>adam_init\<close>: the state of a fresh \<^verbatim>\<open>torch.optim.Adam\<close> for the parameters;
  \<^item> \<open>loss_item\<close>: \<^verbatim>\<open>criterion(model(features)[0], targets).item()\<close>, which depends on the
    \<^verbatim>\<open>training\<close> flag (dropout, batch normalisation) and the current parameters;
  \<^item> \<open>predicted\<close>: \<^verbatim>\<open>outputs.max(1)[1]\<close>, the predicted classes of the batch;
  \<^item> \<open>targets\<close>: the labels of the batch, so \<^verbatim>\<open>targets.size(0)\<close> is their number;
  \<^item> \<open>backward_step\<close>: \<^verbatim>\<open>loss.backward(); optimizer.step()\<close> after \<^verbatim>\<open>zero_grad\<close>: the new
    parameter values and optimizer state, computed from the old ones, the rates and the batch.
\<close>

record ('p, 'o, 'b) torch =
  adam_init :: "'p \<Rightarrow> 'o"
  loss_item :: "bool \<Rightarrow> 'p \<Rightarrow> 'b \<Rightarrow> pyfloat"
  predicted :: "bool \<Rightarrow> 'p \<Rightarrow> 'b \<Rightarrow> nat list"
  targets :: "'b \<Rightarrow> nat list"
  backward_step :: "'p \<Rightarrow> 'o \<Rightarrow> pyfloat list \<Rightarrow> 'b \<Rightarrow> 'p \<times> 'o"

text \<open>\<^verbatim>\<open>predicted.eq(targets).sum().item()\<close>\<close>

definition eq_sum :: "nat list \<Rightarrow> nat list \<Rightarrow> nat" where
  "eq_sum ps ts = length (filter (\<lambda>(p, t). p = t) (zip ps ts))"

text \<open>
  \<^verbatim>\<open>model.state_dict()\<close> does not copy: the dictionary it returns holds the module's own
  parameter tensors, which share their storage with the live parameters. What the caller
  gets is therefore a reference to the storage of the model.
  \<^verbatim>\<open>optimizer.step()\<close> updates that storage in place, and
  \<^verbatim>\<open>model.load_state_dict(d)\<close> copies the values found in \<open>d\<close> into the parameters.
\<close>

definition state_dict :: "ref \<Rightarrow> ref" where
  "state_dict model = model"

definition load_state_dict :: "ref \<Rightarrow> ref \<Rightarrow> ('p, 'o) world \<Rightarrow> ('p, 'o) world" where
  "load_state_dict model d w = w\<lparr>store := (store w)(model := store w d)\<rparr>"

definition optimizer_step ::
  "('p, 'o, 'b) torch \<Rightarrow> ref \<Rightarrow> 'b \<Rightarrow> ('p, 'o) world \<Rightarrow> ('p, 'o) world" where
  "optimizer_step fw model b w =
     (let po = backward_step fw (store w model) (opt_state w) (param_lrs w) b
      in w\<lparr>store := (store w)(model := fst po), opt_state := snd po\<rparr>)"

section \<open>train\_enhanced\_model\<close>

text \<open>The running statistics of one pass over a loader: loss sum, correct, total.\<close>

type_synonym stats = "pyfloat \<times> nat \<times> nat"

text \<open>The body of the loop over \<^verbatim>\<open>train_loader\<close>, batch by batch.\<close>

fun train_batches ::
  "('p, 'o, 'b) torch \<Rightarrow> ref \<Rightarrow> 'b list \<Rightarrow> ('p, 'o) world \<times> stats \<Rightarrow> ('p, 'o) world \<times> stats" where
  "train_batches fw model [] ws = ws"
| "train_batches fw model (b # bs) (w, train_loss, train_correct, train_total) =
     (let loss = loss_item fw (training w) (store w model) b;
          pred = predicted fw (training w) (store w model) b;
          w' = optimizer_step fw model b w
      in train_batches fw model bs
           (w', flt_add train_loss loss,
            train_correct + eq_sum pred (targets fw b),
            train_total + length (targets fw b)))"

text \<open>The body of the loop over \<^verbatim>\<open>val_loader\<close> under \<^verbatim>\<open>torch.no_grad()\<close>: forward pass only.\<close>

fun eval_batches ::
  "('p, 'o, 'b) torch \<Rightarrow> ref \<Rightarrow> 'b list \<Rightarrow> ('p, 'o) world \<times> stats \<Rightarrow> ('p, 'o) world \<times> stats" where
  "eval_batches fw model [] ws = ws"
| "eval_batches fw model (b # bs) (w, val_loss, val_correct, val_total) =
     (let loss = loss_item fw (training w) (store w model) b;
          pred = predicted fw (training w) (store w model) b
      in eval_batches fw model bs
           (w, flt_add val_loss loss,
            val_correct + eq_sum pred (targets fw b),
            val_total + length (targets fw b)))"

definition training_phase ::
  "('p, 'o, 'b) torch \<Rightarrow> ref \<Rightarrow> 'b list \<Rightarrow> ('p, 'o) world \<Rightarrow> ('p, 'o) world \<times> stats" where
  "training_phase fw model train_loader w =
     train_batches fw model train_loader (w\<lparr>training := True\<rparr>, Fin 0, 0, 0)"

definition validation_phase ::
  "('p, 'o, 'b) torch \<Rightarrow> ref \<Rightarrow> 'b list \<Rightarrow> ('p, 'o) world \<Rightarrow> ('p, 'o) world \<times> stats" where
  "validation_phase fw model val_loader w =
     eval_batches fw model val_loader (w\<lparr>training := False\<rparr>, Fin 0, 0, 0)"

text \<open>
  The local variables of \<^verbatim>\<open>train_enhanced_model\<close> together with the world. Two fields are
  not variables of the code: \<open>epochs_run\<close> counts the entries into the body of the epoch
  loop, and \<open>early_stopped\<close> records that the \<^verbatim>\<open>break\<close> was taken.
\<close>

record ('p, 'o) locals =
  wld :: "('p, 'o) world"
  sched :: scheduler
  train_losses :: "pyfloat list"
  val_losses :: "pyfloat list"
  train_accs :: "pyfloat list"
  val_accs :: "pyfloat list"
  best_val_loss :: pyfloat
  counter :: nat
  best_model_state :: "ref option"
  epochs_run :: nat
  early_stopped :: bool

definition patience :: nat where
  "patience = 10"

text \<open>The early-stopping block at the end of an epoch; the result says whether to break.\<close>

definition early_stopping :: "ref \<Rightarrow> pyfloat \<Rightarrow> ('p, 'o) locals \<Rightarrow> bool \<times> ('p, 'o) locals" where
  "early_stopping model val_loss st =
     (if flt_less val_loss (best_val_loss st)
      then (False, st\<lparr>best_val_loss := val_loss,
                       best_model_state := Some (state_dict model),
                       counter := 0\<rparr>)
      else let st' = st\<lparr>counter := counter st + 1\<rparr>
           in if counter st' \<ge> patience then (True, st'\<lparr>early_stopped := True\<rparr>)
              else (False, st'))"

text \<open>One run of the body of \<^verbatim>\<open>for epoch in range(num_epochs)\<close>.\<close>

definition run_epoch ::
  "('p, 'o, 'b) torch \<Rightarrow> ref \<Rightarrow> 'b list \<Rightarrow> 'b list \<Rightarrow> ('p, 'o) locals
     \<Rightarrow> py_error + bool \<times> ('p, 'o) locals" where
  "run_epoch fw model train_loader val_loader st0 =
     (let st = st0\<lparr>epochs_run := epochs_run st0 + 1\<rparr>;
          (w1, train_loss, train_correct, train_total) =
             training_phase fw model train_loader (wld st)
      in case flt_div_len train_loss (length train_loader) of
           Inl err \<Rightarrow> Inl err
         | Inr train_loss' \<Rightarrow>
      (case percentage train_correct train_total of
           Inl err \<Rightarrow> Inl err
         | Inr train_accuracy \<Rightarrow>
      (let st1 = st\<lparr>train_losses := train_losses st @ [train_loss'],
                      train_accs := train_accs st @ [train_accuracy]\<rparr>;
           (w2, val_loss, val_correct, val_total) =
              validation_phase fw model val_loader w1
       in case flt_div_len val_loss (length val_loader) of
            Inl err \<Rightarrow> Inl err
          | Inr val_loss' \<Rightarrow>
       (case percentage val_correct val_total of
            Inl err \<Rightarrow> Inl err
          | Inr val_accuracy \<Rightarrow>
       (let st2 = st1\<lparr>val_losses := val_losses st1 @ [val_loss'],
                        val_accs := val_accs st1 @ [val_accuracy]\<rparr>
        in case step None (sched st2, param_lrs w2) of
             (sg, Some err) \<Rightarrow> Inl err
           | ((sched', lrs'), None) \<Rightarrow>
               Inr (early_stopping model val_loss'
                      (st2\<lparr>wld := w2\<lparr>param_lrs := lrs'\<rparr>, sched := sched'\<rparr>)))))))"

text \<open>The loop over \<^verbatim>\<open>range(num_epochs)\<close>, which a \<^verbatim>\<open>break\<close> or an exception leaves.\<close>

fun epoch_loop ::
  "('p, 'o, 'b) torch \<Rightarrow> ref \<Rightarrow> 'b list \<Rightarrow> 'b list \<Rightarrow> nat list \<Rightarrow> ('p, 'o) locals
     \<Rightarrow> py_error + ('p, 'o) locals" where
  "epoch_loop fw model train_loader val_loader [] st = Inr st"
| "epoch_loop fw model train_loader val_loader (epoch # rest) st =
     (case run_epoch fw model train_loader val_loader st of
        Inl err \<Rightarrow> Inl err
      | Inr (brk, st') \<Rightarrow>
          if brk then Inr st' else epoch_loop fw model train_loader val_loader rest st')"

text \<open>The returned dictionary.\<close>

definition history :: "('p, 'o) locals \<Rightarrow> (string \<rightharpoonup> pyfloat list)" where
  "history st =
     [''train_loss'' \<mapsto> train_losses st, ''val_loss'' \<mapsto> val_losses st,
      ''train_acc'' \<mapsto> train_accs st, ''val_acc'' \<mapsto> val_accs st]"

text \<open>
  The state in which the epoch loop starts: optimizer and scheduler are constructed, with
  \<open>T_0 = 10\<close>, \<open>T_mult = 2\<close> and the defaults \<open>eta_min = 0\<close>, \<open>last_epoch = -1\<close>. The
  checks that the framework makes on the arguments of \<^verbatim>\<open>Adam\<close> are not modelled.
\<close>

definition initial_state ::
  "('p, 'o, 'b) torch \<Rightarrow> ref \<Rightarrow> pyfloat \<Rightarrow> ('p, 'o) world \<Rightarrow> py_error + ('p, 'o) locals" where
  "initial_state fw model learning_rate w =
     (let w0 = w\<lparr>opt_state := adam_init fw (store w model), param_lrs := [learning_rate]\<rparr>
      in case CosineAnnealingWarmRestarts (param_lrs w0) 10 2 (Fin 0) (- 1) of
           Inl err \<Rightarrow> Inl err
         | Inr (sch, lrs) \<Rightarrow>
             Inr \<lparr>wld = w0\<lparr>param_lrs := lrs\<rparr>, sched = sch,
                  train_losses = [], val_losses = [], train_accs = [], val_accs = [],
                  best_val_loss = PInf, counter = 0, best_model_state = None,
                  epochs_run = 0, early_stopped = False\<rparr>)"

text \<open>The restore after the loop.\<close>

definition restore_best :: "ref \<Rightarrow> ('p, 'o) locals \<Rightarrow> ('p, 'o) locals" where
  "restore_best model st =
     (case best_model_state st of
        None \<Rightarrow> st
      | Some d \<Rightarrow> st\<lparr>wld := load_state_dict model d (wld st)\<rparr>)"

text \<open>
  The function. It returns \<^verbatim>\<open>(model, history)\<close>; the model is the object passed in, so
  the result is given as the final state, which holds the store and hence the parameters
  of the returned model, and the history.
\<close>

definition train_enhanced_model ::
  "('p, 'o, 'b) torch \<Rightarrow> ref \<Rightarrow> 'b list \<Rightarrow> 'b list \<Rightarrow> nat \<Rightarrow> pyfloat \<Rightarrow> ('p, 'o) world
     \<Rightarrow> py_error + ('p, 'o) locals \<times> (string \<rightharpoonup> pyfloat list)" where
  "train_enhanced_model fw model train_loader val_loader num_epochs learning_rate w =
     (case initial_state fw model learning_rate w of
        Inl err \<Rightarrow> Inl err
      | Inr st0 \<Rightarrow>
     (case epoch_loop fw model train_loader val_loader [0..<num_epochs] st0 of
        Inl err \<Rightarrow> Inl err
      | Inr st \<Rightarrow> (let st' = restore_best model st in Inr (st', history st'))))"

section \<open>evaluate\_model\<close>

text \<open>The loop over \<^verbatim>\<open>test_loader\<close>: counts and the two lists for the confusion matrix.\<close>

fun test_batches ::
  "('p, 'o, 'b) torch \<Rightarrow> ref \<Rightarrow> 'b list \<Rightarrow> ('p, 'o) world \<times> nat \<times> nat \<times> nat list \<times> nat list
     \<Rightarrow> ('p, 'o) world \<times> nat \<times> nat \<times> nat list \<times> nat list" where
  "test_batches fw model [] a = a"
| "test_batches fw model (b # bs) (w, test_correct, test_total, all_preds, all_targets) =
     (let pred = predicted fw (training w) (store w model) b
      in test_batches fw model bs
           (w, test_correct + eq_sum pred (targets fw b),
            test_total + length (targets fw b),
            all_preds @ pred, all_targets @ targets fw b))"

text \<open>
  The world after the call is returned beside the result, since \<^verbatim>\<open>model.eval()\<close> has
  happened whether or not the division raises.
\<close>

definition evaluate_model ::
  "('p, 'o, 'b) torch \<Rightarrow> ref \<Rightarrow> 'b list \<Rightarrow> ('p, 'o) world
     \<Rightarrow> ('p, 'o) world \<times> (py_error + pyfloat \<times> nat list \<times> nat list)" where
  "evaluate_model fw model test_loader w =
     (let (w', test_correct, test_total, all_preds, all_targets) =
            test_batches fw model test_loader (w\<lparr>training := False\<rparr>, 0, 0, [], [])
      in (w', case percentage test_correct test_total of
                Inl err \<Rightarrow> Inl err
              | Inr test_accuracy \<Rightarrow> Inr (test_accuracy, all_preds, all_targets)))"

section \<open>Early stopping as a function of the validation losses\<close>

text \<open>
  The policy in words: the best value seen so far starts at infinity; an epoch whose
  validation loss is strictly below it becomes the new best and resets the counter to 0,
  any other epoch increments the counter by 1. \<open>es_after\<close> gives the best value and the
  counter after a sequence of validation losses; the policy stops at the first epoch
  after which the counter has reached the patience.
\<close>

fun es_track :: "pyfloat \<times> nat \<Rightarrow> pyfloat \<Rightarrow> pyfloat \<times> nat" where
  "es_track (best, c) v = (if flt_less v best then (v, 0) else (best, c + 1))"

definition es_after :: "pyfloat list \<Rightarrow> pyfloat \<times> nat" where
  "es_after vs = foldl es_track (PInf, 0) vs"

definition es_counter :: "pyfloat list \<Rightarrow> nat" where
  "es_counter vs = snd (es_after vs)"

section \<open>Invariants used in the proofs\<close>

text \<open>
  A scheduler in which no division by \<open>T_0\<close> is by zero: true of the fields of a fresh
  scheduler with \<open>T_0 \<ge> 1\<close>, \<open>T_mult \<ge> 1\<close> and \<open>last_epoch = -1\<close>, and kept by \<open>step\<close>.
\<close>

definition sched_ok :: "scheduler \<Rightarrow> bool" where
  "sched_ok s = (1 \<le> T_0 s \<and> 1 \<le> T_mult s \<and> - 1 \<le> T_cur s \<and> T_cur s < T_0 s)"

text \<open>The total of a pass over a loader: the number of samples in its batches.\<close>

definition samples :: "('p, 'o, 'b) torch \<Rightarrow> 'b list \<Rightarrow> nat" where
  "samples fw loader = sum_list (map (\<lambda>b. length (targets fw b)) loader)"

text \<open>
  The state of the epoch loop agrees with the policy: one entry per epoch in each list,
  the best loss and the counter are those of the policy on the validation losses so far,
  the policy has not stopped before the latest epoch, and the break flag says whether the
  counter has reached the patience.
\<close>

definition tracked :: "('p, 'o) locals \<Rightarrow> bool" where
  "tracked st =
     (length (train_losses st) = epochs_run st \<and> length (val_losses st) = epochs_run st \<and>
      length (train_accs st) = epochs_run st \<and> length (val_accs st) = epochs_run st \<and>
      (best_val_loss st, counter st) = es_after (val_losses st) \<and>
      (\<forall>j<length (val_losses st). es_counter (take j (val_losses st)) < patience) \<and>
      early_stopped st = (patience \<le> counter st))"

text \<open>
  What is read off a finished run: the epochs run, the counter, whether the loop broke,
  the validation losses and the parameters of the returned model.
\<close>

definition summary ::
  "ref \<Rightarrow> py_error + ('p, 'o) locals \<times> (string \<rightharpoonup> pyfloat list)
     \<Rightarrow> py_error + nat \<times> nat \<times> bool \<times> pyfloat list \<times> 'p" where
  "summary model r =
     (case r of
        Inl err \<Rightarrow> Inl err
      | Inr (st, h) \<Rightarrow>
          Inr (epochs_run st, counter st, early_stopped st, val_losses st, store (wld st) model))"

section \<open>A small instance of the framework\<close>

text \<open>
  For concrete runs: the parameters are one integer, every optimizer step adds 1 to it, the
  loss of a batch is the value of the parameter, a batch is the list of its labels and
  the prediction is always right. With the one-batch loader \<open>[[0]]\<close> the validation loss
  of epoch \<open>k\<close> (counted from 1) is \<open>k\<close>: it is best in the first epoch and worse ever
  after.
\<close>

definition toy :: "(int, unit, nat list) torch" where
  "toy = \<lparr>adam_init = (\<lambda>p. ()),
           loss_item = (\<lambda>tr p b. Fin (real_of_int p)),
           predicted = (\<lambda>tr p b. b),
           targets = (\<lambda>b. b),
           backward_step = (\<lambda>p opt lrs b. (p + 1, opt))\<rparr>"

definition toy_world :: "(int, unit) world" where
  "toy_world = \<lparr>store = (\<lambda>r. 0), training = False, opt_state = (), param_lrs = []\<rparr>"

section \<open>EmotionFeatureExtractor\<close>

text \<open>
  A tensor is its shape, its element type and its contents (of type \<open>'d\<close>). The argument
  of \<^verbatim>\<open>__call__\<close> is either a tensor or something else that \<^verbatim>\<open>torch.tensor\<close> accepts
  (a NumPy array, a nested list), which has a shape and contents too.
\<close>

datatype dtype = Float32 | Float64 | Int64

record 'd tensor =
  shape :: "nat list"
  elem_type :: dtype
  contents :: 'd

datatype 'd waveform = Tensor "'d tensor" | Array_like "nat list" 'd

definition dim :: "'d tensor \<Rightarrow> nat" where
  "dim t = length (shape t)"

definition unsqueeze0 :: "'d tensor \<Rightarrow> 'd tensor" where
  "unsqueeze0 t = t\<lparr>shape := 1 # shape t\<rparr>"

text \<open>
  \<^verbatim>\<open>torch.tensor(x, dtype=torch.float32)\<close>; \<open>cast\<close> is the conversion of the contents to
  single precision.
\<close>

definition torch_tensor_float32 :: "('d \<Rightarrow> 'd) \<Rightarrow> nat list \<Rightarrow> 'd \<Rightarrow> 'd tensor" where
  "torch_tensor_float32 cast sh x = \<lparr>shape = sh, elem_type = Float32, contents = cast x\<rparr>"

text \<open>The two transforms built by \<^verbatim>\<open>__init__\<close> are torchaudio's and stay uninterpreted.\<close>

record 'd extractor =
  sample_rate :: nat
  mel_transform :: "'d tensor \<Rightarrow> 'd tensor"
  amplitude_to_db :: "'d tensor \<Rightarrow> 'd tensor"

text \<open>The tensor that \<^verbatim>\<open>__call__\<close> passes to the mel transform.\<close>

definition prepared :: "('d \<Rightarrow> 'd) \<Rightarrow> 'd waveform \<Rightarrow> 'd tensor" where
  "prepared cast waveform =
     (let t = (case waveform of Tensor t \<Rightarrow> t | Array_like sh x \<Rightarrow> torch_tensor_float32 cast sh x)
      in if dim t = 1 then unsqueeze0 t else t)"

definition extractor_call :: "'d extractor \<Rightarrow> ('d \<Rightarrow> 'd) \<Rightarrow> 'd waveform \<Rightarrow> 'd tensor" where
  "extractor_call self cast waveform =
     (let mel_spec = mel_transform self (prepared cast waveform);
          mel_spec_db = amplitude_to_db self mel_spec
      in mel_spec_db)"

text \<open>The shape of the argument as the caller sees it.\<close>

fun input_shape :: "'d waveform \<Rightarrow> nat list" where
  "input_shape (Tensor t) = shape t"
| "input_shape (Array_like sh x) = sh"

section \<open>The validation workflow\<close>

text \<open>
  The \<^verbatim>\<open>run\<close> steps of the job \<^verbatim>\<open>validate\<close> are shell scripts, which the runner executes
  with \<^verbatim>\<open>bash -e\<close>. The commands they use: \<^verbatim>\<open>echo\<close>, the tests \<^verbatim>\<open>[ -d p ]\<close> and
  \<^verbatim>\<open>[ -f p ]\<close>, \<^verbatim>\<open>if\<close>, and the line
  \<^verbatim>\<open>find . -name "*.py" -type f -exec python -m py_compile {} \;\<close>.

  The runner's checkout is the directories and the regular files below the working
  directory, by their paths, and for every file whether \<^verbatim>\<open>python -m py_compile\<close> accepts it.
\<close>

datatype cmd =
    Echo string
  | Test_d string
  | Test_f string
  | If_then_else cmd "cmd list" "cmd list"
  | Find_py_compile

record runner =
  directories :: "string list"
  regular_files :: "string list"
  py_compile_ok :: "string \<Rightarrow> bool"

text \<open>\<^verbatim>\<open>-name "*.py"\<close>: the path ends in \<^verbatim>\<open>.py\<close>.\<close>

definition name_py :: "string \<Rightarrow> bool" where
  "name_py p = (3 \<le> length p \<and> drop (length p - 3) p = ''.py'')"

text \<open>The exit status of \<^verbatim>\<open>python -m py_compile f\<close>.\<close>

definition py_compile :: "runner \<Rightarrow> string \<Rightarrow> nat" where
  "py_compile r f = (if py_compile_ok r f then 0 else 1)"

text \<open>
  \<^verbatim>\<open>find ... -exec command {} \;\<close> runs the command once per matching file. The status of
  the command is the truth value of the \<^verbatim>\<open>-exec\<close> primary and goes no further: the exit
  status of \<^verbatim>\<open>find\<close> itself only reports errors of the traversal, of which a checkout has
  none. The result is the exit status of \<^verbatim>\<open>find\<close> and the statuses of the commands it ran.
\<close>

fun find_exec :: "(string \<Rightarrow> nat) \<Rightarrow> string list \<Rightarrow> nat \<times> nat list" where
  "find_exec command [] = (0, [])"
| "find_exec command (f # fs) =
     (let primary_true = (command f = 0);
          (st, ran) = find_exec command fs
      in (st, command f # ran))"

text \<open>
  Exit status and standard output. Under \<^verbatim>\<open>-e\<close> a list of commands stops at the first
  command with a non-zero status; the condition of an \<^verbatim>\<open>if\<close> is exempt, and the status of
  an \<^verbatim>\<open>if\<close> is that of the branch it ran.
\<close>

fun exec_cmd :: "runner \<Rightarrow> cmd \<Rightarrow> nat \<times> string list"
  and exec_list :: "runner \<Rightarrow> cmd list \<Rightarrow> nat \<times> string list" where
  "exec_cmd r (Echo s) = (0, [s])"
| "exec_cmd r (Test_d p) = (if p \<in> set (directories r) then 0 else 1, [])"
| "exec_cmd r (Test_f p) = (if p \<in> set (regular_files r) then 0 else 1, [])"
| "exec_cmd r (If_then_else c a b) =
     (let (st, out) = exec_cmd r c;
          (st', out') = (if st = 0 then exec_list r a else exec_list r b)
      in (st', out @ out'))"
| "exec_cmd r Find_py_compile =
     (fst (find_exec (py_compile r) (filter name_py (regular_files r))), [])"
| "exec_list r [] = (0, [])"
| "exec_list r (c # cs) =
     (let (st, out) = exec_cmd r c
      in if st \<noteq> 0 then (st, out)
         else (let (st', out') = exec_list r cs in (st', out @ out')))"









section \<open>The scheduler\<close>

lemma step_counters_ok:
  "sched_ok s \<Longrightarrow> sched_ok (step_counters e s) \<and> 0 \<le> T_cur (step_counters e s)
     \<and> T_0 s \<le> T_0 (step_counters e s)"
  unfolding sched_ok_def step_counters_def Let_def
  by (auto simp: mult_le_cancel_left1 intro: order_trans[OF _ mult_left_mono[of 1]])

lemma step_scheduler: "fst (fst (step e (s, g))) = step_counters e s"
  by (simp add: step_def Let_def split: sum.splits)

lemma steps_append: "steps (xs @ ys) sg = steps ys (steps xs sg)"
  by (induction xs arbitrary: sg) simp_all

lemma steps_ok:
  "sched_ok s \<Longrightarrow> sched_ok (fst (steps es (s, g))) \<and> T_0 s \<le> T_0 (fst (steps es (s, g)))
      \<and> (es \<noteq> [] \<longrightarrow> 0 \<le> T_cur (fst (steps es (s, g))))"
proof (induction es arbitrary: s g rule: rev_induct)
  case Nil
  then show ?case by simp
next
  case (snoc e es)
  obtain s1 g1 where 1: "steps es (s, g) = (s1, g1)" by (cases "steps es (s, g)") auto
  with snoc.IH[OF snoc.prems, of g] have ok: "sched_ok s1" "T_0 s \<le> T_0 s1" by simp_all
  have "fst (steps (es @ [e]) (s, g)) = step_counters e s1"
    using 1 by (simp add: steps_append step_scheduler)
  then show ?case using step_counters_ok[OF ok(1), of e] ok(2) by simp
qed

lemma init_fields_ok: "1 \<le> t0 \<Longrightarrow> 1 \<le> tm \<Longrightarrow> sched_ok (init_fields t0 tm em (- 1) bl)"
  by (simp add: sched_ok_def init_fields_def)

lemma cosine_arg_cases:
  "cosine_arg s =
     (if \<not> fits_float (T_cur s) \<or> \<not> fits_float (T_0 s) then Inl OverflowError
      else if T_0 s = 0 then Inl ZeroDivisionError
      else Inr (flt_quot (flt_mul (Fin pi) (Fin (real_of_int (T_cur s)))) (real_of_int (T_0 s))))"
  by (simp add: cosine_arg_def float_of_int_def flt_div_int_def)

lemma step_no_zero_division:
  assumes "sched_ok s"
  shows "snd (step e (s, g)) \<noteq> Some ZeroDivisionError"
proof -
  have "T_0 (step_counters e s) \<noteq> 0"
    using step_counters_ok[OF assms, of e] by (simp add: sched_ok_def)
  then show ?thesis
    by (simp add: step_def get_lr_def cosine_arg_cases Let_def)
qed

lemma step_returns:
  assumes "sched_ok s" "fits_float (T_0 (step_counters e s))"
  shows "\<exists>g'. step e (s, g) = ((step_counters e s, g'), None)"
proof -
  let ?s = "step_counters e s"
  have ok: "T_0 ?s \<noteq> 0" "0 \<le> T_cur ?s" "T_cur ?s < T_0 ?s"
    using step_counters_ok[OF assms(1), of e] by (simp_all add: sched_ok_def)
  then have "fits_float (T_cur ?s)" using assms(2) by (simp add: fits_float_def)
  then show ?thesis using ok(1) assms(2)
    by (simp add: step_def get_lr_def cosine_arg_cases Let_def)
qed



lemma flt_round_small: "\<bar>x\<bar> \<le> 2 ^ 64 \<Longrightarrow> flt_round x = Fin x"
  unfolding flt_round_def float_limit_def by (simp, arith)

lemma fits_float_small: "\<bar>n\<bar> \<le> 2 ^ 64 \<Longrightarrow> fits_float n"
proof -
  assume "\<bar>n\<bar> \<le> 2 ^ 64"
  then have "\<bar>real_of_int n\<bar> \<le> 2 ^ 64"
    by (metis of_int_abs of_int_le_iff of_int_numeral of_int_power)
  then show ?thesis by (simp add: fits_float_def float_limit_def)
qed

lemmas sched_simps =
  step_def step_counters_def get_lr_def cosine_arg_cases assign_lrs_def annealed_def
  flt_sub_def flt_round_small fits_float_small Let_def




text \<open>
  \<^bold>\<open>C4\<close>. For the fields of a scheduler set with \<open>T_0 \<ge> 1\<close>, \<open>T_mult \<ge> 1\<close> and
  \<open>last_epoch = -1\<close>, and every sequence of calls of \<^verbatim>\<open>step\<close>, returning or raising, of
  which the first is the one the base constructor makes: after every call
  \<open>0 \<le> T_cur < T_0\<close>; \<open>T_0\<close> is at least its initial value after any calls \<open>es1\<close> and at
  least that again after any further calls \<open>es2\<close>, so it never decreases; and no call
  raises \<^verbatim>\<open>ZeroDivisionError\<close>. (A call can raise \<^verbatim>\<open>OverflowError\<close> once \<open>T_0\<close> has left the
  range of floats; the counters are updated all the same.)
\<close>

theorem scheduler_invariant:
  assumes "1 \<le> t0" and "1 \<le> tmult"
  shows "(es1 \<noteq> [] \<longrightarrow>
            0 \<le> T_cur (fst (steps es1 (init_fields t0 tmult emin (- 1) bl, groups))) \<and>
            T_cur (fst (steps es1 (init_fields t0 tmult emin (- 1) bl, groups)))
              < T_0 (fst (steps es1 (init_fields t0 tmult emin (- 1) bl, groups)))) \<and>
         t0 \<le> T_0 (fst (steps es1 (init_fields t0 tmult emin (- 1) bl, groups))) \<and>
         T_0 (fst (steps es1 (init_fields t0 tmult emin (- 1) bl, groups)))
           \<le> T_0 (fst (steps (es1 @ es2) (init_fields t0 tmult emin (- 1) bl, groups))) \<and>
         snd (step e (steps es1 (init_fields t0 tmult emin (- 1) bl, groups)))
           \<noteq> Some ZeroDivisionError"
proof -
  let ?i = "init_fields t0 tmult emin (- 1) bl"
  obtain s1 g1 where 1: "steps es1 (?i, groups) = (s1, g1)"
    by (cases "steps es1 (?i, groups)") auto
  have i: "sched_ok ?i" using assms by (rule init_fields_ok)
  from steps_ok[OF i, of es1 groups] 1 have
    a: "sched_ok s1" "T_0 ?i \<le> T_0 s1" "es1 \<noteq> [] \<longrightarrow> 0 \<le> T_cur s1" by simp_all
  from steps_ok[OF a(1), of es2 g1] have b: "T_0 s1 \<le> T_0 (fst (steps es2 (s1, g1)))"
    by simp
  have c: "T_cur s1 < T_0 s1" using a(1) by (simp add: sched_ok_def)
  have d: "t0 \<le> T_0 s1" using a(2) by (simp add: init_fields_def)
  have e: "snd (step e (s1, g1)) \<noteq> Some ZeroDivisionError"
    using a(1) by (rule step_no_zero_division)
  show ?thesis using 1 a(3) b c d e by (simp add: steps_append)
qed

theorem scheduler_invariant_witness:
  "snd (step None (steps [None] (init_fields 1 (2 ^ 1024) (Fin 0) (- 1) [Fin 1], [Fin 1])))
     = Some OverflowError \<and>
   T_cur (fst (steps [None, None] (init_fields 1 (2 ^ 1024) (Fin 0) (- 1) [Fin 1], [Fin 1]))) = 0 \<and>
   T_0 (fst (steps [None, None] (init_fields 1 (2 ^ 1024) (Fin 0) (- 1) [Fin 1], [Fin 1])))
     = 2 ^ 1024 \<and>
   T_cur (fst (steps ([None, None] @ [None, Some 7])
                 (init_fields 1 (2 ^ 1024) (Fin 0) (- 1) [Fin 1], [Fin 1]))) = 2 \<and>
   T_0 (fst (steps ([None, None] @ [None, Some 7])
                 (init_fields 1 (2 ^ 1024) (Fin 0) (- 1) [Fin 1], [Fin 1]))) = 2 ^ 1024"
  using scheduler_invariant[of 1 "2 ^ 1024" "[None, None]" "Fin 0" "[Fin 1]" "[Fin 1]"
      "[None, Some 7]" None]
  by (simp add: init_fields_def sched_simps fits_float_def float_limit_def)

section \<open>The passes over the loaders\<close>

lemma train_batches_total:
  "snd (snd (snd (train_batches fw m bs (w, l, c, t)))) = t + samples fw bs"
  by (induction bs arbitrary: w l c t) (simp_all add: samples_def Let_def)

lemma eval_batches_total:
  "snd (snd (snd (eval_batches fw m bs (w, l, c, t)))) = t + samples fw bs"
  by (induction bs arbitrary: w l c t) (simp_all add: samples_def Let_def)

lemma eval_batches_world: "fst (eval_batches fw m bs (w, l, c, t)) = w"
  by (induction bs arbitrary: l c t) (simp_all add: Let_def)

lemma test_batches_world: "fst (test_batches fw m bs (w, c, t, ps, ts)) = w"
  by (induction bs arbitrary: c t ps ts) (simp_all add: Let_def)

lemma test_batches_total:
  "fst (snd (snd (test_batches fw m bs (w, c, t, ps, ts)))) = t + samples fw bs"
  by (induction bs arbitrary: c t ps ts) (simp_all add: samples_def Let_def)

lemma validation_phase_world: "fst (validation_phase fw m vl w) = w\<lparr>training := False\<rparr>"
  by (simp add: validation_phase_def eval_batches_world)

lemma run_epoch_cases:
  assumes "run_epoch fw m trl vll st = Inr (brk, st')"
  obtains w1 tls tc tt w2 vls vc vt tl' ta vl' va sch lrs where
    "training_phase fw m trl (wld st) = (w1, tls, tc, tt)"
    "flt_div_len tls (length trl) = Inr tl'" "percentage tc tt = Inr ta"
    "validation_phase fw m vll w1 = (w2, vls, vc, vt)"
    "flt_div_len vls (length vll) = Inr vl'" "percentage vc vt = Inr va"
    "step None (sched st, param_lrs w2) = ((sch, lrs), None)"
    "(brk, st') = early_stopping m vl'
        (st\<lparr>epochs_run := epochs_run st + 1,
            train_losses := train_losses st @ [tl'], train_accs := train_accs st @ [ta],
            val_losses := val_losses st @ [vl'], val_accs := val_accs st @ [va],
            wld := w2\<lparr>param_lrs := lrs\<rparr>, sched := sch\<rparr>)"
  using assms unfolding run_epoch_def Let_def
  by (auto split: prod.splits sum.splits option.splits)

lemma flt_div_len_Inl: "flt_div_len x n = Inl e \<longleftrightarrow> n = 0 \<and> e = ZeroDivisionError"
  by (auto simp: flt_div_len_def)

lemma percentage_Inl: "percentage c n = Inl e \<longleftrightarrow> n = 0 \<and> e = ZeroDivisionError"
  by (auto simp: percentage_def)

lemma training_phase_total: "snd (snd (snd (training_phase fw m trl w))) = samples fw trl"
  using train_batches_total[of fw m trl "w\<lparr>training := True\<rparr>" "Fin 0" 0 0]
  by (simp add: training_phase_def)

lemma validation_phase_total: "snd (snd (snd (validation_phase fw m vll w))) = samples fw vll"
  using eval_batches_total[of fw m vll "w\<lparr>training := False\<rparr>" "Fin 0" 0 0]
  by (simp add: validation_phase_def)

lemma samples_pos_nonempty: "0 < samples fw loader \<Longrightarrow> loader \<noteq> []"
  by (auto simp: samples_def)

lemma samples_pos: "\<exists>b\<in>set loader. targets fw b \<noteq> [] \<Longrightarrow> 0 < samples fw loader"
  by (induction loader) (auto simp: samples_def)

section \<open>One epoch\<close>

lemma early_stopping_effect:
  assumes "(brk, st') = early_stopping m v st"
  shows "(best_val_loss st', counter st') = es_track (best_val_loss st, counter st) v"
    and "brk = (patience \<le> counter st')"
    and "early_stopped st' = (early_stopped st \<or> brk)"
    and "best_model_state st' = best_model_state st \<or> best_model_state st' = Some m"
    and "wld st' = wld st" and "sched st' = sched st" and "epochs_run st' = epochs_run st"
    and "train_losses st' = train_losses st" and "val_losses st' = val_losses st"
    and "train_accs st' = train_accs st" and "val_accs st' = val_accs st"
  using assms
  by (auto simp: early_stopping_def Let_def patience_def state_dict_def split: if_splits)

lemma run_epoch_effect:
  assumes "run_epoch fw m trl vll st = Inr (brk, st')"
  shows "epochs_run st' = epochs_run st + 1"
    and "\<exists>x. train_losses st' = train_losses st @ [x]"
    and "\<exists>x. train_accs st' = train_accs st @ [x]"
    and "\<exists>x. val_accs st' = val_accs st @ [x]"
    and "\<exists>v. val_losses st' = val_losses st @ [v] \<and>
           (best_val_loss st', counter st') = es_track (best_val_loss st, counter st) v"
    and "brk = (patience \<le> counter st')"
    and "early_stopped st' = (early_stopped st \<or> brk)"
    and "best_model_state st' = best_model_state st \<or> best_model_state st' = Some m"
    and "store (wld st') = store (fst (training_phase fw m trl (wld st)))"
    and "opt_state (wld st') = opt_state (fst (training_phase fw m trl (wld st)))"
    and "\<exists>lrs. step None (sched st, param_lrs (fst (training_phase fw m trl (wld st))))
           = ((sched st', lrs), None)"
proof -
  from assms obtain w1 tls tc tt w2 vls vc vt tl' ta vl' va sch lrs where
    tp: "training_phase fw m trl (wld st) = (w1, tls, tc, tt)" and
    vp: "validation_phase fw m vll w1 = (w2, vls, vc, vt)" and
    sp: "step None (sched st, param_lrs w2) = ((sch, lrs), None)" and
    es: "(brk, st') = early_stopping m vl'
        (st\<lparr>epochs_run := epochs_run st + 1,
            train_losses := train_losses st @ [tl'], train_accs := train_accs st @ [ta],
            val_losses := val_losses st @ [vl'], val_accs := val_accs st @ [va],
            wld := w2\<lparr>param_lrs := lrs\<rparr>, sched := sch\<rparr>)"
    by (rule run_epoch_cases)
  have w2: "w2 = w1\<lparr>training := False\<rparr>"
    using validation_phase_world[of fw m vll w1] vp by simp
  note e = early_stopping_effect[OF es]
  show "epochs_run st' = epochs_run st + 1" using e(7) by simp
  show "\<exists>x. train_losses st' = train_losses st @ [x]" using e(8) by simp
  show "\<exists>x. train_accs st' = train_accs st @ [x]" using e(10) by simp
  show "\<exists>x. val_accs st' = val_accs st @ [x]" using e(11) by simp
  show "\<exists>v. val_losses st' = val_losses st @ [v] \<and>
           (best_val_loss st', counter st') = es_track (best_val_loss st, counter st) v"
    using e(1) e(9) by simp
  show "brk = (patience \<le> counter st')" by (rule e(2))
  show "early_stopped st' = (early_stopped st \<or> brk)" using e(3) by simp
  show "best_model_state st' = best_model_state st \<or> best_model_state st' = Some m"
    using e(4) by simp
  show "store (wld st') = store (fst (training_phase fw m trl (wld st)))"
    using e(5) tp w2 by simp
  show "opt_state (wld st') = opt_state (fst (training_phase fw m trl (wld st)))"
    using e(5) tp w2 by simp
  show "\<exists>lrs. step None (sched st, param_lrs (fst (training_phase fw m trl (wld st))))
           = ((sched st', lrs), None)"
    using e(6) sp tp w2 by simp
qed

lemma es_after_snoc: "es_after (vs @ [v]) = es_track (es_after vs) v"
  by (simp add: es_after_def)

lemma run_epoch_tracked:
  assumes r: "run_epoch fw m trl vll st = Inr (brk, st')"
    and t: "tracked st" and n: "\<not> early_stopped st"
  shows "tracked st'"
proof -
  note e = run_epoch_effect[OF r]
  from e(5) obtain v where v: "val_losses st' = val_losses st @ [v]"
    "(best_val_loss st', counter st') = es_track (best_val_loss st, counter st) v" by blast
  have ea: "es_after (val_losses st) = (best_val_loss st, counter st)"
    using t by (simp add: tracked_def)
  have a: "(best_val_loss st', counter st') = es_after (val_losses st')"
    using v ea by (simp add: es_after_snoc)
  have c: "es_counter (val_losses st) < patience"
    using t n ea by (simp add: tracked_def es_counter_def)
  have b: "\<forall>j<length (val_losses st'). es_counter (take j (val_losses st')) < patience"
  proof (intro allI impI)
    fix j assume "j < length (val_losses st')"
    then have "j < length (val_losses st) \<or> j = length (val_losses st)" using v(1) by auto
    then show "es_counter (take j (val_losses st')) < patience"
      using t c v(1) by (auto simp: tracked_def)
  qed
  have d: "early_stopped st' = (patience \<le> counter st')" using e(6) e(7) n by simp
  show ?thesis using t e(1) e(2) e(3) e(4) v(1) a b d by (auto simp: tracked_def)
qed

lemma run_epoch_returns:
  assumes s: "sched_ok (sched st)" and f: "fits_float (T_0 (step_counters None (sched st)))"
    and t: "0 < samples fw trl" and v: "0 < samples fw vll"
  shows "\<exists>brk st'. run_epoch fw m trl vll st = Inr (brk, st')"
proof -
  obtain w1 tls tc tt where tp: "training_phase fw m trl (wld st) = (w1, tls, tc, tt)"
    by (cases "training_phase fw m trl (wld st)") auto
  obtain w2 vls vc vt where vp: "validation_phase fw m vll w1 = (w2, vls, vc, vt)"
    by (cases "validation_phase fw m vll w1") auto
  have tt: "tt = samples fw trl" using training_phase_total[of fw m trl "wld st"] tp by simp
  have vt: "vt = samples fw vll" using validation_phase_total[of fw m vll w1] vp by simp
  obtain tl' where d1: "flt_div_len tls (length trl) = Inr tl'"
    using samples_pos_nonempty[OF t] by (simp add: flt_div_len_def)
  obtain ta where d2: "percentage tc tt = Inr ta"
    using t tt by (simp add: percentage_def)
  obtain vl' where d3: "flt_div_len vls (length vll) = Inr vl'"
    using samples_pos_nonempty[OF v] by (simp add: flt_div_len_def)
  obtain va where d4: "percentage vc vt = Inr va"
    using v vt by (simp add: percentage_def)
  from step_returns[OF s f, of "param_lrs w2"] obtain lrs where
    sp: "step None (sched st, param_lrs w2) = ((step_counters None (sched st), lrs), None)"
    by blast
  obtain r where "run_epoch fw m trl vll st = Inr r"
    using tp vp d1 d2 d3 d4 sp by (simp add: run_epoch_def Let_def)
  then show ?thesis by (cases r) auto
qed

lemma training_phase_totalD:
  "training_phase fw m trl w = (w1, l, c, n) \<Longrightarrow> n = samples fw trl"
  using training_phase_total[of fw m trl w] by simp

lemma validation_phase_totalD:
  "validation_phase fw m vll w = (w1, l, c, n) \<Longrightarrow> n = samples fw vll"
  using validation_phase_total[of fw m vll w] by simp

lemma step_no_zero_divisionD:
  "step e (s, g) = (sg, Some ZeroDivisionError) \<Longrightarrow> \<not> sched_ok s"
  using step_no_zero_division[of s e g] by auto

lemma run_epoch_no_zero_division:
  assumes s: "sched_ok (sched st)" and t: "0 < samples fw trl" and v: "0 < samples fw vll"
  shows "run_epoch fw m trl vll st \<noteq> Inl ZeroDivisionError"
  using s t v samples_pos_nonempty[OF t] samples_pos_nonempty[OF v]
  unfolding run_epoch_def Let_def
  by (auto simp: flt_div_len_Inl percentage_Inl split: prod.splits sum.splits option.splits
      dest: training_phase_totalD validation_phase_totalD step_no_zero_divisionD)

lemma run_epoch_sched_ok:
  assumes "run_epoch fw m trl vll st = Inr (brk, st')" and "sched_ok (sched st)"
  shows "sched_ok (sched st')"
proof -
  from run_epoch_effect(11)[OF assms(1)] obtain g lrs where
    "step None (sched st, g) = ((sched st', lrs), None)" by blast
  then have "sched st' = step_counters None (sched st)"
    using step_scheduler[of None "sched st" g] by simp
  then show ?thesis using step_counters_ok[OF assms(2), of None] by simp
qed

lemma run_epoch_raises:
  assumes "trl = [] \<or> vll = []"
  shows "run_epoch fw m trl vll st = Inl ZeroDivisionError"
  using assms unfolding run_epoch_def Let_def
  by (auto simp: flt_div_len_def percentage_def split: prod.splits sum.splits if_splits)

section \<open>The epoch loop and the whole function\<close>

lemma epoch_loop_tracked:
  "epoch_loop fw m trl vll es st = Inr st' \<Longrightarrow> tracked st \<Longrightarrow> \<not> early_stopped st \<Longrightarrow>
     tracked st' \<and> epochs_run st' \<le> epochs_run st + length es \<and>
     (\<not> early_stopped st' \<longrightarrow> epochs_run st' = epochs_run st + length es)"
proof (induction es arbitrary: st)
  case Nil
  then show ?case by simp
next
  case (Cons e es)
  from Cons.prems(1) obtain brk st1 where
    r: "run_epoch fw m trl vll st = Inr (brk, st1)" and
    l: "(if brk then Inr st1 else epoch_loop fw m trl vll es st1) = Inr st'"
    by (auto split: sum.splits)
  have t1: "tracked st1" using r Cons.prems(2,3) by (rule run_epoch_tracked)
  note f = run_epoch_effect[OF r]
  show ?case
  proof (cases brk)
    case True
    then have "st' = st1" using l by simp
    moreover have "early_stopped st1" using f(7) True by simp
    ultimately show ?thesis using t1 f(1) by simp
  next
    case False
    then have l': "epoch_loop fw m trl vll es st1 = Inr st'" using l by simp
    have "\<not> early_stopped st1" using f(7) False Cons.prems(3) by simp
    from Cons.IH[OF l' t1 this] show ?thesis using f(1) by simp
  qed
qed

lemma epoch_loop_best_model_state:
  "epoch_loop fw m trl vll es st = Inr st' \<Longrightarrow>
     best_model_state st = None \<or> best_model_state st = Some m \<Longrightarrow>
     best_model_state st' = None \<or> best_model_state st' = Some m"
proof (induction es arbitrary: st)
  case Nil
  then show ?case by simp
next
  case (Cons e es)
  from Cons.prems(1) obtain brk st1 where
    r: "run_epoch fw m trl vll st = Inr (brk, st1)" and
    l: "(if brk then Inr st1 else epoch_loop fw m trl vll es st1) = Inr st'"
    by (auto split: sum.splits)
  have b: "best_model_state st1 = None \<or> best_model_state st1 = Some m"
    using run_epoch_effect(8)[OF r] Cons.prems(2) by auto
  show ?case
  proof (cases brk)
    case True
    then show ?thesis using l b by simp
  next
    case False
    then show ?thesis using l b Cons.IH by simp
  qed
qed

lemma restore_best_alias:
  "best_model_state st = None \<or> best_model_state st = Some m \<Longrightarrow> restore_best m st = st"
  by (auto simp: restore_best_def load_state_dict_def)

lemma initial_state_Inr:
  "\<exists>st0. initial_state fw m lr w = Inr st0 \<and> tracked st0 \<and> \<not> early_stopped st0 \<and>
     best_model_state st0 = None \<and> epochs_run st0 = 0 \<and> sched_ok (sched st0) \<and>
     T_0 (sched st0) = 10 \<and> T_mult (sched st0) = 2 \<and> T_cur (sched st0) = 0 \<and>
     store (wld st0) = store w \<and> training (wld st0) = training w \<and>
     train_losses st0 = [] \<and> val_losses st0 = [] \<and> train_accs st0 = [] \<and> val_accs st0 = []"
  by (simp add: initial_state_def CosineAnnealingWarmRestarts_def init_fields_def step_def
      step_counters_def get_lr_def cosine_arg_cases fits_float_small Let_def tracked_def
      es_after_def patience_def sched_ok_def)

lemma train_enhanced_model_cases:
  assumes "train_enhanced_model fw m trl vll n lr w = Inr (st, h)"
  obtains st0 where "initial_state fw m lr w = Inr st0"
    "epoch_loop fw m trl vll [0..<n] st0 = Inr st" "h = history st"
    "tracked st0" "\<not> early_stopped st0" "best_model_state st0 = None" "epochs_run st0 = 0"
    "best_model_state st = None \<or> best_model_state st = Some m"
proof -
  from initial_state_Inr[of fw m lr w] obtain st0 where
    i: "initial_state fw m lr w = Inr st0" "tracked st0" "\<not> early_stopped st0"
       "best_model_state st0 = None" "epochs_run st0 = 0" by blast
  from assms i(1) obtain st1 where
    l: "epoch_loop fw m trl vll [0..<n] st0 = Inr st1" and
    r: "st = restore_best m st1" "h = history (restore_best m st1)"
    by (auto simp: train_enhanced_model_def Let_def split: sum.splits)
  have b: "best_model_state st1 = None \<or> best_model_state st1 = Some m"
    using epoch_loop_best_model_state[OF l] i(4) by simp
  then have "restore_best m st1 = st1" by (rule restore_best_alias)
  then show ?thesis using that i l r b by simp
qed

lemma epoch_loop_no_zero_division:
  "sched_ok (sched st) \<Longrightarrow> 0 < samples fw trl \<Longrightarrow> 0 < samples fw vll \<Longrightarrow>
     epoch_loop fw m trl vll es st \<noteq> Inl ZeroDivisionError"
proof (induction es arbitrary: st)
  case Nil
  then show ?case by simp
next
  case (Cons e es)
  show ?case
  proof (cases "run_epoch fw m trl vll st")
    case (Inl err)
    then show ?thesis using run_epoch_no_zero_division[OF Cons.prems, of m] by auto
  next
    case (Inr r)
    obtain brk st1 where r: "r = (brk, st1)" by (cases r) auto
    have "sched_ok (sched st1)" using run_epoch_sched_ok Inr r Cons.prems(1) by blast
    from Cons.IH[OF this Cons.prems(2,3)] show ?thesis using Inr r by simp
  qed
qed

lemma train_enhanced_model_no_zero_division:
  assumes "0 < samples fw trl" "0 < samples fw vll"
  shows "train_enhanced_model fw m trl vll n lr w \<noteq> Inl ZeroDivisionError"
proof -
  from initial_state_Inr[of fw m lr w] obtain st0 where
    i: "initial_state fw m lr w = Inr st0" "sched_ok (sched st0)" by blast
  show ?thesis
    using i(1) epoch_loop_no_zero_division[OF i(2) assms, of m "[0..<n]"]
    by (auto simp: train_enhanced_model_def Let_def split: sum.splits)
qed

lemma train_enhanced_model_raises:
  assumes "0 < n" "trl = [] \<or> vll = []"
  shows "train_enhanced_model fw m trl vll n lr w = Inl ZeroDivisionError"
proof -
  from initial_state_Inr[of fw m lr w] obtain st0 where
    i: "initial_state fw m lr w = Inr st0" by blast
  have "[0..<n] = 0 # [1..<n]" using assms(1) by (simp add: upt_conv_Cons)
  then have "epoch_loop fw m trl vll [0..<n] st0 = Inl ZeroDivisionError"
    using run_epoch_raises[OF assms(2), of fw m st0] by simp
  then show ?thesis using i by (simp add: train_enhanced_model_def)
qed

lemma evaluate_model_result:
  "snd (evaluate_model fw m tel w) =
     (if samples fw tel = 0 then Inl ZeroDivisionError
      else Inr (Fin (100 * real (fst (snd (test_batches fw m tel (w\<lparr>training := False\<rparr>, 0, 0, [], []))))
                       / real (samples fw tel)),
                fst (snd (snd (snd (test_batches fw m tel (w\<lparr>training := False\<rparr>, 0, 0, [], []))))),
                snd (snd (snd (snd (test_batches fw m tel (w\<lparr>training := False\<rparr>, 0, 0, [], [])))))))"
  using test_batches_total[of fw m tel "w\<lparr>training := False\<rparr>" 0 0 "[]" "[]"]
  by (auto simp: evaluate_model_def percentage_def split: prod.splits)

lemma returned_state_is_loop_state:
  assumes "train_enhanced_model fw m trl vll num_epochs lr w = Inr (st, h)"
  shows "\<exists>st0. initial_state fw m lr w = Inr st0 \<and>
           epoch_loop fw m trl vll [0..<num_epochs] st0 = Inr st"
  using assms by (rule train_enhanced_model_cases) blast

section \<open>Concrete runs\<close>

lemmas run_simps =
  train_enhanced_model_def initial_state_def CosineAnnealingWarmRestarts_def init_fields_def
  step_def step_counters_def get_lr_def cosine_arg_cases fits_float_small flt_round_small
  assign_lrs_def run_epoch_def training_phase_def
  validation_phase_def optimizer_step_def toy_def toy_world_def early_stopping_def
  state_dict_def patience_def flt_div_len_def percentage_def eq_sum_def Let_def
  restore_best_def load_state_dict_def summary_def

lemma upt_2: "[0..<2] = [0, 1]"
  by (simp add: upt_rec)

lemma upt_11: "[0..<11] = [0, 1, 2, 3, 4, 5, 6, 7, 8, 9, 10]"
  by (simp add: upt_rec)

lemma upt_12: "[0..<12] = [0, 1, 2, 3, 4, 5, 6, 7, 8, 9, 10, 11]"
  by (simp add: upt_rec)

lemma toy_run_0:
  "summary 0 (train_enhanced_model toy 0 [] [] 0 (Fin (1/1000)) toy_world) = Inr (0, 0, False, [], 0)"
  by (simp add: run_simps)

lemma toy_run_1:
  "summary 0 (train_enhanced_model toy 0 [[0]] [[0]] 1 (Fin (1/1000)) toy_world)
     = Inr (1, 0, False, [Fin 1], 1)"
  by (simp add: run_simps)

lemma toy_run_2:
  "summary 0 (train_enhanced_model toy 0 [[0]] [[0]] 2 (Fin (1/1000)) toy_world)
     = Inr (2, 1, False, [Fin 1, Fin 2], 2)"
  by (simp add: run_simps upt_2)

lemma toy_run_11:
  "summary 0 (train_enhanced_model toy 0 [[0]] [[0]] 11 (Fin (1/1000)) toy_world)
     = Inr (11, 10, True,
         [Fin 1, Fin 2, Fin 3, Fin 4, Fin 5, Fin 6, Fin 7, Fin 8, Fin 9, Fin 10, Fin 11], 11)"
  by (simp add: run_simps upt_11)

lemma toy_run_12:
  "summary 0 (train_enhanced_model toy 0 [[0]] [[0]] 12 (Fin (1/1000)) toy_world)
     = Inr (11, 10, True,
         [Fin 1, Fin 2, Fin 3, Fin 4, Fin 5, Fin 6, Fin 7, Fin 8, Fin 9, Fin 10, Fin 11], 11)"
  by (simp add: run_simps upt_12)

lemma summary_Inr:
  assumes "summary m r = Inr (n, c, b, vs, p)"
  obtains st h where "r = Inr (st, h)" "epochs_run st = n" "counter st = c"
    "early_stopped st = b" "val_losses st = vs" "store (wld st) m = p"
  using assms by (auto simp: summary_def split: sum.splits)

section \<open>The claims about training and evaluation\<close>

text \<open>
  \<^bold>\<open>C1\<close>, amended. In every run of \<^verbatim>\<open>train_enhanced_model\<close> that returns, with
  \<open>patience = 10\<close>: the counter of the code is the counter of the policy on the recorded
  validation losses (reset to 0 by an epoch whose loss is strictly below the best so far,
  incremented by any other epoch); the policy's counter was below the patience after every
  earlier epoch; the loop breaks exactly when the counter has reached the patience, at the
  first epoch where it does; and a loop that does not break runs all \<open>num_epochs\<close> epochs.
  So fewer than \<open>num_epochs\<close> epochs run only after a break, and a break leaves fewer than
  \<open>num_epochs\<close> epochs run unless it falls on the last epoch.
\<close>

theorem early_stopping_policy:
  assumes "train_enhanced_model fw m trl vll num_epochs lr w = Inr (st, h)"
  shows "patience = 10 \<and>
         length (val_losses st) = epochs_run st \<and>
         counter st = es_counter (val_losses st) \<and>
         (\<forall>j<epochs_run st. es_counter (take j (val_losses st)) < patience) \<and>
         (early_stopped st \<longleftrightarrow> patience \<le> es_counter (val_losses st)) \<and>
         epochs_run st \<le> num_epochs \<and>
         (\<not> early_stopped st \<longrightarrow> epochs_run st = num_epochs)"
proof -
  from assms obtain st0 where
    l: "epoch_loop fw m trl vll [0..<num_epochs] st0 = Inr st" and
    i: "tracked st0" "\<not> early_stopped st0" "epochs_run st0 = 0"
    by (rule train_enhanced_model_cases)
  from epoch_loop_tracked[OF l i(1,2)] have
    t: "tracked st" and n: "epochs_run st \<le> num_epochs"
      "\<not> early_stopped st \<longrightarrow> epochs_run st = num_epochs"
    using i(3) by simp_all
  have ea: "es_after (val_losses st) = (best_val_loss st, counter st)"
    using t by (simp add: tracked_def)
  have c: "counter st = es_counter (val_losses st)" using ea by (simp add: es_counter_def)
  have "length (val_losses st) = epochs_run st"
    "\<forall>j<epochs_run st. es_counter (take j (val_losses st)) < patience"
    "early_stopped st \<longleftrightarrow> patience \<le> counter st"
    using t by (simp_all add: tracked_def)
  then show ?thesis using c n by (simp add: patience_def)
qed

theorem early_stopping_policy_witness:
  "\<exists>st h. train_enhanced_model toy 0 [[0]] [[0]] 12 (Fin (1/1000)) toy_world = Inr (st, h) \<and>
     epochs_run st = 11 \<and> early_stopped st \<and> es_counter (val_losses st) = 10 \<and>
     es_counter (take 10 (val_losses st)) < 10"
proof -
  from toy_run_12 obtain st h where
    r: "train_enhanced_model toy 0 [[0]] [[0]] 12 (Fin (1/1000)) toy_world = Inr (st, h)" and
    f: "epochs_run st = 11" "counter st = 10" "early_stopped st"
    by (rule summary_Inr) simp
  from early_stopping_policy[OF r] have "counter st = es_counter (val_losses st)"
    "\<forall>j<epochs_run st. es_counter (take j (val_losses st)) < patience" by simp_all
  then have "es_counter (val_losses st) = 10" "es_counter (take 10 (val_losses st)) < 10"
    using f by (simp_all add: patience_def)
  then show ?thesis using r f by blast
qed

text \<open>
  The claim says that the loop ends before \<open>num_epochs\<close> epochs exactly when the loss has
  failed to improve for 10 epochs in a row. With \<open>num_epochs = 11\<close> and a loss that is best
  in the first epoch, the tenth failure is the eleventh epoch: the counter reaches the
  patience and the loop breaks, yet all 11 epochs have run.
\<close>

theorem break_on_last_epoch_counterexample:
  "summary 0 (train_enhanced_model toy 0 [[0]] [[0]] 11 (Fin (1/1000)) toy_world)
     = Inr (11, 10, True,
         [Fin 1, Fin 2, Fin 3, Fin 4, Fin 5, Fin 6, Fin 7, Fin 8, Fin 9, Fin 10, Fin 11], 11) \<and>
   es_counter [Fin 1, Fin 2, Fin 3, Fin 4, Fin 5, Fin 6, Fin 7, Fin 8, Fin 9, Fin 10, Fin 11]
     = patience \<and>
   \<not> (11 :: nat) < 11"
  using toy_run_11 by (simp add: es_counter_def es_after_def patience_def)

text \<open>
  \<^bold>\<open>C2\<close>. The claim is that the returned model has the parameters of the epoch with the
  lowest validation loss. The code keeps \<^verbatim>\<open>model.state_dict()\<close>, which aliases the live
  parameters, so the later optimizer steps change the kept state too and loading it is the
  identity (\<open>returned_state_is_loop_state\<close>). In the run below the first epoch is the best
  one, with loss 1 and parameter 1 (the run of one epoch shows the parameter after the
  first epoch); the run of two epochs returns the parameter 2 of the last epoch.
\<close>

theorem restore_keeps_last_epoch:
  "summary 0 (train_enhanced_model toy 0 [[0]] [[0]] 1 (Fin (1/1000)) toy_world)
     = Inr (1, 0, False, [Fin 1], 1) \<and>
   summary 0 (train_enhanced_model toy 0 [[0]] [[0]] 2 (Fin (1/1000)) toy_world)
     = Inr (2, 1, False, [Fin 1, Fin 2], 2)"
  using toy_run_1 toy_run_2 by simp

text \<open>
  \<^bold>\<open>C5\<close>. The validation pass and \<^verbatim>\<open>evaluate_model\<close> leave the store (hence the
  parameters of the model), the state of the optimizer and its learning rates as they
  were; only the \<^verbatim>\<open>training\<close> flag is cleared. In an epoch that completes, the parameters
  and the optimizer state at its end are those left by the last training batch.
\<close>

theorem validation_frame:
  "store (fst (validation_phase fw m vll w)) = store w \<and>
   opt_state (fst (validation_phase fw m vll w)) = opt_state w \<and>
   param_lrs (fst (validation_phase fw m vll w)) = param_lrs w \<and>
   store (fst (evaluate_model fw m tel w)) = store w \<and>
   opt_state (fst (evaluate_model fw m tel w)) = opt_state w \<and>
   param_lrs (fst (evaluate_model fw m tel w)) = param_lrs w \<and>
   (run_epoch fw m trl vll st = Inr (brk, st') \<longrightarrow>
      store (wld st') = store (fst (training_phase fw m trl (wld st))) \<and>
      opt_state (wld st') = opt_state (fst (training_phase fw m trl (wld st))))"
proof -
  have v: "fst (validation_phase fw m vll w) = w\<lparr>training := False\<rparr>"
    by (rule validation_phase_world)
  obtain w1 c n ps ts where
    tb: "test_batches fw m tel (w\<lparr>training := False\<rparr>, 0, 0, [], []) = (w1, c, n, ps, ts)"
    by (metis prod_cases5)
  have "w1 = w\<lparr>training := False\<rparr>"
    using test_batches_world[of fw m tel "w\<lparr>training := False\<rparr>" 0 0 "[]" "[]"] tb by simp
  then have e: "fst (evaluate_model fw m tel w) = w\<lparr>training := False\<rparr>"
    using tb by (simp add: evaluate_model_def)
  show ?thesis using v e run_epoch_effect(9,10)[of fw m trl vll st brk st'] by simp
qed

theorem validation_frame_witness:
  "\<exists>st0 brk st'. initial_state toy 0 (Fin (1/1000)) toy_world = Inr st0 \<and>
     run_epoch toy 0 [[0], [1]] [[0]] st0 = Inr (brk, st') \<and>
     store (wld st') 0 = 2 \<and>
     store (fst (validation_phase toy 0 [[0]] toy_world)) 0 = 0 \<and>
     store (fst (evaluate_model toy 0 [[0]] toy_world)) 0 = 0"
proof -
  from initial_state_Inr[of toy 0 "Fin (1/1000)" toy_world] obtain st0 where
    i: "initial_state toy 0 (Fin (1/1000)) toy_world = Inr st0" "sched_ok (sched st0)"
       "store (wld st0) = store toy_world"
       "T_0 (sched st0) = 10 \<and> T_mult (sched st0) = 2 \<and> T_cur (sched st0) = 0" by blast
  have "0 < samples toy [[0], [1]]" "0 < samples toy [[0]]"
    by (simp_all add: samples_def toy_def)
  moreover have "fits_float (T_0 (step_counters None (sched st0)))"
    using i(4) by (simp add: step_counters_def Let_def fits_float_small)
  ultimately obtain brk st' where
    r: "run_epoch toy 0 [[0], [1]] [[0]] st0 = Inr (brk, st')"
    using run_epoch_returns[OF i(2), of toy "[[0], [1]]" "[[0]]" 0] by blast
  have t: "store (fst (training_phase toy 0 [[0], [1]] (wld st0))) 0 = 2"
    using i(3) by (simp add: training_phase_def optimizer_step_def toy_def toy_world_def Let_def)
  from validation_frame[of toy 0 "[[0]]" toy_world "[[0]]" "[[0], [1]]" st0 brk st'] r t
  have "store (wld st') 0 = 2"
    "store (fst (validation_phase toy 0 [[0]] toy_world)) 0 = 0"
    "store (fst (evaluate_model toy 0 [[0]] toy_world)) 0 = 0"
    by (simp_all add: toy_world_def)
  then show ?thesis using i(1) r by blast
qed

text \<open>
  \<^bold>\<open>C8\<close>. The dictionary returned by a run has exactly the keys \<^verbatim>\<open>train_loss\<close>,
  \<^verbatim>\<open>val_loss\<close>, \<^verbatim>\<open>train_acc\<close> and \<^verbatim>\<open>val_acc\<close>, bound to the four lists; each list has
  one entry per epoch run, the epoch of the break included (\<open>run_epoch_effect\<close>: an epoch
  that completes appends one entry to each list, whether or not it breaks), and the
  number of epochs run is at most \<open>num_epochs\<close>.
\<close>

theorem history_lengths:
  assumes "train_enhanced_model fw m trl vll num_epochs lr w = Inr (st, h)"
  shows "dom h = {''train_loss'', ''val_loss'', ''train_acc'', ''val_acc''} \<and>
         h ''train_loss'' = Some (train_losses st) \<and> h ''val_loss'' = Some (val_losses st) \<and>
         h ''train_acc'' = Some (train_accs st) \<and> h ''val_acc'' = Some (val_accs st) \<and>
         length (train_losses st) = epochs_run st \<and> length (val_losses st) = epochs_run st \<and>
         length (train_accs st) = epochs_run st \<and> length (val_accs st) = epochs_run st \<and>
         epochs_run st \<le> num_epochs"
proof -
  from assms obtain st0 where
    l: "epoch_loop fw m trl vll [0..<num_epochs] st0 = Inr st" and h: "h = history st" and
    i: "tracked st0" "\<not> early_stopped st0" "epochs_run st0 = 0"
    by (rule train_enhanced_model_cases)
  from epoch_loop_tracked[OF l i(1,2)] have
    t: "tracked st" and n: "epochs_run st \<le> num_epochs"
    using i(3) by simp_all
  have d: "dom h = {''train_loss'', ''val_loss'', ''train_acc'', ''val_acc''}"
    unfolding h history_def by auto
  have v: "h ''train_loss'' = Some (train_losses st)" "h ''val_loss'' = Some (val_losses st)"
    "h ''train_acc'' = Some (train_accs st)" "h ''val_acc'' = Some (val_accs st)"
    unfolding h history_def by simp_all
  show ?thesis using t n d v by (simp add: tracked_def)
qed

theorem history_lengths_witness:
  "\<exists>st h. train_enhanced_model toy 0 [[0]] [[0]] 2 (Fin (1/1000)) toy_world = Inr (st, h) \<and>
     dom h = {''train_loss'', ''val_loss'', ''train_acc'', ''val_acc''} \<and>
     h ''val_loss'' = Some [Fin 1, Fin 2] \<and>
     length (train_losses st) = 2 \<and> length (train_accs st) = 2 \<and> length (val_accs st) = 2"
proof -
  from toy_run_2 obtain st h where
    r: "train_enhanced_model toy 0 [[0]] [[0]] 2 (Fin (1/1000)) toy_world = Inr (st, h)" and
    f: "epochs_run st = 2" "val_losses st = [Fin 1, Fin 2]"
    by (rule summary_Inr) simp
  from history_lengths[OF r] have
    d: "dom h = {''train_loss'', ''val_loss'', ''train_acc'', ''val_acc''}" and
    v: "h ''val_loss'' = Some (val_losses st)" and
    l: "length (train_losses st) = epochs_run st" "length (train_accs st) = epochs_run st"
       "length (val_accs st) = epochs_run st"
    by blast+
  have "h ''val_loss'' = Some [Fin 1, Fin 2]" using v f(2) by simp
  moreover have "length (train_losses st) = 2" "length (train_accs st) = 2"
    "length (val_accs st) = 2" using l f(1) by simp_all
  ultimately show ?thesis using r d by blast
qed

text \<open>
  \<^bold>\<open>C9\<close>, amended. If the training and the validation loader each hold a batch with at
  least one sample, the four divisors of an epoch (the two lengths and the two totals,
  from whatever world the passes start) are positive and \<^verbatim>\<open>train_enhanced_model\<close> does not
  raise \<^verbatim>\<open>ZeroDivisionError\<close>; if one of the two loaders is empty and \<open>num_epochs \<ge> 1\<close>, it
  raises \<^verbatim>\<open>ZeroDivisionError\<close>. In \<^verbatim>\<open>evaluate_model\<close> the divisor is positive and the call does
  not raise \<^verbatim>\<open>ZeroDivisionError\<close> if the test loader holds a batch with at least one sample,
  and the call raises \<^verbatim>\<open>ZeroDivisionError\<close> if the loader is empty.
\<close>

theorem division_safety:
  "((\<exists>b\<in>set trl. targets fw b \<noteq> []) \<and> (\<exists>b\<in>set vll. targets fw b \<noteq> []) \<longrightarrow>
      0 < length trl \<and> 0 < snd (snd (snd (training_phase fw m trl w1))) \<and>
      0 < length vll \<and> 0 < snd (snd (snd (validation_phase fw m vll w2))) \<and>
      train_enhanced_model fw m trl vll num_epochs lr w \<noteq> Inl ZeroDivisionError) \<and>
   (0 < num_epochs \<and> (trl = [] \<or> vll = []) \<longrightarrow>
      train_enhanced_model fw m trl vll num_epochs lr w = Inl ZeroDivisionError) \<and>
   ((\<exists>b\<in>set tel. targets fw b \<noteq> []) \<longrightarrow>
      0 < fst (snd (snd (test_batches fw m tel (w'\<lparr>training := False\<rparr>, 0, 0, [], [])))) \<and>
      snd (evaluate_model fw m tel w') \<noteq> Inl ZeroDivisionError) \<and>
   (tel = [] \<longrightarrow> snd (evaluate_model fw m tel w') = Inl ZeroDivisionError)"
proof (intro conjI impI)
  assume a: "(\<exists>b\<in>set trl. targets fw b \<noteq> []) \<and> (\<exists>b\<in>set vll. targets fw b \<noteq> [])"
  then have p: "0 < samples fw trl" "0 < samples fw vll" by (simp_all add: samples_pos)
  show "0 < length trl" using samples_pos_nonempty[OF p(1)] by simp
  show "0 < length vll" using samples_pos_nonempty[OF p(2)] by simp
  show "0 < snd (snd (snd (training_phase fw m trl w1)))"
    using p(1) by (simp add: training_phase_total)
  show "0 < snd (snd (snd (validation_phase fw m vll w2)))"
    using p(2) by (simp add: validation_phase_total)
  show "train_enhanced_model fw m trl vll num_epochs lr w \<noteq> Inl ZeroDivisionError"
    using p by (rule train_enhanced_model_no_zero_division)
next
  assume "0 < num_epochs \<and> (trl = [] \<or> vll = [])"
  then show "train_enhanced_model fw m trl vll num_epochs lr w = Inl ZeroDivisionError"
    by (simp add: train_enhanced_model_raises)
next
  assume a: "\<exists>b\<in>set tel. targets fw b \<noteq> []"
  then have p: "0 < samples fw tel" by (rule samples_pos)
  show "0 < fst (snd (snd (test_batches fw m tel (w'\<lparr>training := False\<rparr>, 0, 0, [], []))))"
    using p by (simp add: test_batches_total)
  show "snd (evaluate_model fw m tel w') \<noteq> Inl ZeroDivisionError"
    using p by (simp add: evaluate_model_result)
next
  assume "tel = []"
  then show "snd (evaluate_model fw m tel w') = Inl ZeroDivisionError"
    by (simp add: evaluate_model_result samples_def)
qed

theorem division_safety_witness:
  "train_enhanced_model toy 0 [[0]] [[0]] 3 (Fin (1/1000)) toy_world \<noteq> Inl ZeroDivisionError \<and>
   train_enhanced_model toy 0 [] [[0]] 3 (Fin (1/1000)) toy_world = Inl ZeroDivisionError \<and>
   train_enhanced_model toy 0 [[0]] [] 3 (Fin (1/1000)) toy_world = Inl ZeroDivisionError \<and>
   snd (evaluate_model toy 0 [[0]] toy_world) \<noteq> Inl ZeroDivisionError \<and>
   snd (evaluate_model toy 0 [] toy_world) = Inl ZeroDivisionError"
  using division_safety[of "[[0]]" toy "[[0]]" 0 toy_world toy_world 3 "Fin (1/1000)" toy_world
      "[[0]]" toy_world]
    division_safety[of "[]" toy "[[0]]" 0 toy_world toy_world 3 "Fin (1/1000)" toy_world
      "[]" toy_world]
    division_safety[of "[[0]]" toy "[]" 0 toy_world toy_world 3 "Fin (1/1000)" toy_world
      "[]" toy_world]
  by (simp add: toy_def)

text \<open>
  Without \<open>num_epochs \<ge> 1\<close> the claim fails: with no epoch there is no division, and the
  function returns on empty loaders.
\<close>

theorem no_epoch_no_division_counterexample:
  "summary 0 (train_enhanced_model toy 0 [] [] 0 (Fin (1/1000)) toy_world)
     = Inr (0, 0, False, [], 0) \<and>
   train_enhanced_model toy 0 [] [] 0 (Fin (1/1000)) toy_world \<noteq> Inl ZeroDivisionError"
  using toy_run_0 by (auto simp: summary_def)

text \<open>
  \<^bold>\<open>C10\<close>. With \<open>num_epochs = 0\<close> the function returns, whatever the loaders: the
  body of the loop has not run, \<open>best_model_state\<close> is \<open>None\<close>, the store and the
  \<^verbatim>\<open>training\<close> flag are as passed in, and the four lists of the history are empty.
\<close>

theorem zero_epochs:
  "\<exists>st. train_enhanced_model fw m trl vll 0 lr w = Inr (st, history st) \<and>
     store (wld st) = store w \<and> training (wld st) = training w \<and>
     best_model_state st = None \<and> epochs_run st = 0 \<and>
     history st = [''train_loss'' \<mapsto> [], ''val_loss'' \<mapsto> [], ''train_acc'' \<mapsto> [],
                   ''val_acc'' \<mapsto> []]"
proof -
  from initial_state_Inr[of fw m lr w] obtain st0 where
    i: "initial_state fw m lr w = Inr st0" "best_model_state st0 = None" "epochs_run st0 = 0"
       "store (wld st0) = store w" "training (wld st0) = training w"
       "train_losses st0 = []" "val_losses st0 = []" "train_accs st0 = []" "val_accs st0 = []"
    by blast
  have "train_enhanced_model fw m trl vll 0 lr w = Inr (st0, history st0)"
    using i(1,2) by (simp add: train_enhanced_model_def restore_best_def)
  then show ?thesis using i by (auto simp: history_def)
qed

theorem zero_epochs_witness:
  "\<exists>st. train_enhanced_model toy 0 [[0]] [[0]] 0 (Fin (1/1000)) toy_world = Inr (st, history st) \<and>
     store (wld st) 0 = 0 \<and> dom (history st) = {''train_loss'', ''val_loss'', ''train_acc'', ''val_acc''}
     \<and> history st ''val_loss'' = Some []"
proof -
  from zero_epochs[of toy 0 "[[0]]" "[[0]]" "Fin (1/1000)" toy_world] obtain st where
    "train_enhanced_model toy 0 [[0]] [[0]] 0 (Fin (1/1000)) toy_world = Inr (st, history st)"
    "store (wld st) = store toy_world"
    "history st = [''train_loss'' \<mapsto> [], ''val_loss'' \<mapsto> [], ''train_acc'' \<mapsto> [],
                   ''val_acc'' \<mapsto> []]" by blast
  then show ?thesis by (auto simp: toy_world_def)
qed

section \<open>The feature extractor\<close>

text \<open>
  \<^bold>\<open>C6\<close>. \<^verbatim>\<open>__call__\<close> returns the mel spectrogram, in dB, of the prepared waveform.
  The prepared waveform has a leading dimension 1 added exactly when the input has one
  dimension; a tensor keeps its element type and contents, anything else is converted to
  a \<^verbatim>\<open>float32\<close> tensor first; a tensor of two or more dimensions reaches the mel transform
  unchanged.
\<close>

theorem extractor_call_prepares:
  "extractor_call self cast wav = amplitude_to_db self (mel_transform self (prepared cast wav)) \<and>
   shape (prepared cast wav) =
     (if length (input_shape wav) = 1 then 1 # input_shape wav else input_shape wav) \<and>
   (wav = Tensor t \<longrightarrow>
      elem_type (prepared cast wav) = elem_type t \<and> contents (prepared cast wav) = contents t) \<and>
   (wav = Array_like sh x \<longrightarrow>
      elem_type (prepared cast wav) = Float32 \<and> contents (prepared cast wav) = cast x) \<and>
   (wav = Tensor t \<and> 2 \<le> dim t \<longrightarrow>
      extractor_call self cast wav = amplitude_to_db self (mel_transform self t))"
  by (cases wav)
    (auto simp: extractor_call_def prepared_def dim_def unsqueeze0_def torch_tensor_float32_def
      Let_def)

theorem extractor_call_prepares_witness:
  "extractor_call \<lparr>sample_rate = 22050, mel_transform = (\<lambda>t. t), amplitude_to_db = (\<lambda>t. t)\<rparr>
     (\<lambda>x. x) (Array_like [3] [1, 2, 3 :: nat])
     = \<lparr>shape = [1, 3], elem_type = Float32, contents = [1, 2, 3]\<rparr> \<and>
   extractor_call \<lparr>sample_rate = 22050, mel_transform = (\<lambda>t. t), amplitude_to_db = (\<lambda>t. t)\<rparr>
     (\<lambda>x. x) (Tensor \<lparr>shape = [2, 3], elem_type = Float64, contents = [1, 2, 3, 4, 5, 6 :: nat]\<rparr>)
     = \<lparr>shape = [2, 3], elem_type = Float64, contents = [1, 2, 3, 4, 5, 6]\<rparr> \<and>
   extractor_call \<lparr>sample_rate = 22050, mel_transform = (\<lambda>t. t), amplitude_to_db = (\<lambda>t. t)\<rparr>
     (\<lambda>x. x) (Tensor \<lparr>shape = [3], elem_type = Float64, contents = [1, 2, 3 :: nat]\<rparr>)
     = \<lparr>shape = [1, 3], elem_type = Float64, contents = [1, 2, 3]\<rparr>"
  using
    extractor_call_prepares[of "\<lparr>sample_rate = 22050, mel_transform = (\<lambda>t. t), amplitude_to_db = (\<lambda>t. t)\<rparr>"
      "\<lambda>x. x" "Array_like [3] [1, 2, 3 :: nat]" undefined "[3]" "[1, 2, 3]"]
    extractor_call_prepares[of "\<lparr>sample_rate = 22050, mel_transform = (\<lambda>t. t), amplitude_to_db = (\<lambda>t. t)\<rparr>"
      "\<lambda>x. x" "Tensor \<lparr>shape = [2, 3], elem_type = Float64, contents = [1, 2, 3, 4, 5, 6 :: nat]\<rparr>"
      "\<lparr>shape = [2, 3], elem_type = Float64, contents = [1, 2, 3, 4, 5, 6 :: nat]\<rparr>" "[]" "[]"]
    extractor_call_prepares[of "\<lparr>sample_rate = 22050, mel_transform = (\<lambda>t. t), amplitude_to_db = (\<lambda>t. t)\<rparr>"
      "\<lambda>x. x" "Tensor \<lparr>shape = [3], elem_type = Float64, contents = [1, 2, 3 :: nat]\<rparr>"
      "\<lparr>shape = [3], elem_type = Float64, contents = [1, 2, 3 :: nat]\<rparr>" "[]" "[]"]
  by (simp add: dim_def tensor.equality)

section \<open>The workflow\<close>




end
